theory Spec2Isabelle
  imports Main
begin

section \<open>JavaScript values\<close>

text \<open>
  The executors handle loosely typed data: the parsed output of the backend, the fields
  of a request body, the exit code of a process. A value is one of JavaScript's
  primitives, an array or a plain object (its properties in enumeration order, each key
  once). Numbers are modelled by integers: the token counts, exit codes and clock
  readings of this program. Non-integral numbers, and magnitudes at which JavaScript
  rounds or prints an exponent, are not represented.
\<close>

datatype jsval =
    JUndef
  | JNull
  | JNaN
  | JBool bool
  | JNum int
  | JStr string
  | JArr "jsval list"
  | JObj "(string \<times> jsval) list"

text \<open>The two error classes that occur: \<open>new Error(message)\<close> and \<open>TypeError\<close>.\<close>

datatype js_error = Error string | TypeError

text \<open>Truthiness, as tested by \<open>if (v)\<close>, \<open>v || d\<close> and \<open>!v\<close>.\<close>

fun truthy :: "jsval \<Rightarrow> bool" where
  "truthy JUndef = False"
| "truthy JNull = False"
| "truthy JNaN = False"
| "truthy (JBool b) = b"
| "truthy (JNum n) = (n \<noteq> 0)"
| "truthy (JStr s) = (s \<noteq> [])"
| "truthy (JArr xs) = True"
| "truthy (JObj kvs) = True"

definition js_or :: "jsval \<Rightarrow> jsval \<Rightarrow> jsval" where
  "js_or a b = (if truthy a then a else b)"

fun nullish :: "jsval \<Rightarrow> bool" where
  "nullish JUndef = True"
| "nullish JNull = True"
| "nullish v = False"

fun is_string :: "jsval \<Rightarrow> bool" where
  "is_string (JStr s) = True"
| "is_string v = False"

text \<open>
  \<open>v.k\<close> on a value that is neither \<open>null\<close> nor \<open>undefined\<close>: the property of an
  object, \<open>undefined\<close> when the object has none of that name and on every other value
  (none of the names this program reads is a property of a string, number or array).
  On \<open>null\<close> and \<open>undefined\<close> the read throws a TypeError: the functions below test
  \<open>nullish\<close> before they read. Written \<open>v?.k\<close> (\<open>opt_prop\<close>), the read gives \<open>undefined\<close>
  there instead.
\<close>

fun get :: "jsval \<Rightarrow> string \<Rightarrow> jsval" where
  "get (JObj kvs) k = (case map_of kvs k of Some v \<Rightarrow> v | None \<Rightarrow> JUndef)"
| "get v k = JUndef"

definition opt_prop :: "jsval \<Rightarrow> string \<Rightarrow> jsval" where
  "opt_prop v k = (if nullish v then JUndef else get v k)"

text \<open>Decimal rendering of an integer, as \<open>String(n)\<close> prints it.\<close>

fun digit_char :: "nat \<Rightarrow> char" where
  "digit_char n = ''0123456789'' ! (n mod 10)"

fun digits :: "nat \<Rightarrow> string" where
  "digits n = (if n < 10 then [digit_char n] else digits (n div 10) @ [digit_char n])"

declare digits.simps [simp del]

definition int_to_string :: "int \<Rightarrow> string" where
  "int_to_string i = (if i < 0 then CHR ''-'' # digits (nat (- i)) else digits (nat i))"

text \<open>\<open>parts.join(sep)\<close> on strings.\<close>

fun join :: "string \<Rightarrow> string list \<Rightarrow> string" where
  "join sep [] = []"
| "join sep [x] = x"
| "join sep (x # y # ys) = x @ sep @ join sep (y # ys)"

text \<open>
  String conversion, as a template literal \<open>`${v}`\<close> and string concatenation apply it.
  An array prints its elements separated by commas; \<open>Array.prototype.join\<close> prints
  \<open>null\<close> and \<open>undefined\<close> elements as the empty string and converts the others.
\<close>

fun js_to_string :: "jsval \<Rightarrow> string" and js_join_parts :: "jsval list \<Rightarrow> string list" where
  "js_to_string JUndef = ''undefined''"
| "js_to_string JNull = ''null''"
| "js_to_string JNaN = ''NaN''"
| "js_to_string (JBool b) = (if b then ''true'' else ''false'')"
| "js_to_string (JNum n) = int_to_string n"
| "js_to_string (JStr s) = s"
| "js_to_string (JArr xs) = join '','' (js_join_parts xs)"
| "js_to_string (JObj kvs) = ''[object Object]''"
| "js_join_parts [] = []"
| "js_join_parts (x # xs) = (if nullish x then [] else js_to_string x) # js_join_parts xs"

definition array_join :: "jsval list \<Rightarrow> string \<Rightarrow> string" where
  "array_join xs sep = join sep (js_join_parts xs)"

text \<open>
  The operator \<open>+\<close>: arrays and objects are first converted to strings; when either
  operand is then a string the result is the concatenation of the string conversions,
  otherwise the operands are converted to numbers and added. \<open>num_of\<close> is that number
  conversion on the values that reach it (\<open>None\<close> is NaN).
\<close>

fun to_primitive :: "jsval \<Rightarrow> jsval" where
  "to_primitive (JArr xs) = JStr (js_to_string (JArr xs))"
| "to_primitive (JObj kvs) = JStr (js_to_string (JObj kvs))"
| "to_primitive v = v"

fun num_of :: "jsval \<Rightarrow> int option" where
  "num_of JNull = Some 0"
| "num_of (JBool b) = Some (if b then 1 else 0)"
| "num_of (JNum n) = Some n"
| "num_of v = None"

definition js_add :: "jsval \<Rightarrow> jsval \<Rightarrow> jsval" where
  "js_add a b =
     (let p = to_primitive a; q = to_primitive b in
      if is_string p \<or> is_string q then JStr (js_to_string p @ js_to_string q)
      else (case (num_of p, num_of q) of
              (Some m, Some n) \<Rightarrow> JNum (m + n)
            | _ \<Rightarrow> JNaN))"

section \<open>Response translation (claude-executor.js)\<close>

text \<open>The OpenAI-shaped response object that \<open>_convertToOpenAiFormat\<close> builds.\<close>

record assistant_message =
  msg_role :: string
  msg_content :: jsval

record choice =
  choice_index :: nat
  choice_message :: assistant_message
  finish_reason :: jsval

record usage =
  prompt_tokens :: jsval
  completion_tokens :: jsval
  total_tokens :: jsval

record openai_response =
  oa_id :: string
  oa_object :: string
  oa_created :: int
  oa_model :: string
  oa_choices :: "choice list"
  oa_usage :: usage

text \<open>
  \<open>content.filter(block => block.type === 'text')\<close>: reading \<open>type\<close> of a \<open>null\<close>
  block throws.
\<close>

fun filter_text_blocks :: "jsval list \<Rightarrow> js_error + jsval list" where
  "filter_text_blocks [] = Inr []"
| "filter_text_blocks (b # bs) =
     (if nullish b then Inl TypeError
      else (case filter_text_blocks bs of
              Inl e \<Rightarrow> Inl e
            | Inr ts \<Rightarrow> Inr (if get b ''type'' = JStr ''text'' then b # ts else ts)))"

text \<open>
  The first half of \<open>_convertToOpenAiFormat\<close> (the chain of tests that assigns
  \<open>content\<close>). \<open>claudeResponse\<close> is what \<open>JSON.parse\<close> returned, so it may be \<open>null\<close>,
  on which \<open>claudeResponse.result\<close> throws.
\<close>

definition response_content :: "jsval \<Rightarrow> js_error + jsval" where
  "response_content claudeResponse =
     (if is_string claudeResponse then Inr claudeResponse
      else if nullish claudeResponse then Inl TypeError
      else if truthy (get claudeResponse ''result'') then Inr (get claudeResponse ''result'')
      else if truthy (get claudeResponse ''content'') then
        (case get claudeResponse ''content'' of
           JArr blocks \<Rightarrow>
             (case filter_text_blocks blocks of
                Inl e \<Rightarrow> Inl e
              | Inr ts \<Rightarrow> Inr (JStr (array_join (map (\<lambda>block. get block ''text'') ts) ''\<newline>'')))
         | c \<Rightarrow> Inr c)
      else if truthy (get claudeResponse ''text'') then Inr (get claudeResponse ''text'')
      else if truthy (opt_prop (get claudeResponse ''message'') ''content'')
        then Inr (get (get claudeResponse ''message'') ''content'')
      else Inr (JStr ''''))"

text \<open>
  \<open>_convertToOpenAiFormat(claudeResponse, model, requestId)\<close>. The clock reading
  \<open>Date.now()\<close> (milliseconds) is the parameter \<open>now\<close>.
\<close>

definition convertToOpenAiFormat :: "jsval \<Rightarrow> string \<Rightarrow> string \<Rightarrow> int \<Rightarrow> js_error + openai_response" where
  "convertToOpenAiFormat claudeResponse model requestId now =
     (case response_content claudeResponse of
        Inl e \<Rightarrow> Inl e
      | Inr content \<Rightarrow>
          (let inputTokens = js_or (opt_prop (get claudeResponse ''usage'') ''input_tokens'') (JNum 0);
               outputTokens = js_or (opt_prop (get claudeResponse ''usage'') ''output_tokens'') (JNum 0)
           in Inr \<lparr> oa_id = ''chatcmpl-'' @ requestId,
                    oa_object = ''chat.completion'',
                    oa_created = now div 1000,
                    oa_model = model,
                    oa_choices =
                      [\<lparr> choice_index = 0,
                         choice_message = \<lparr> msg_role = ''assistant'', msg_content = content \<rparr>,
                         finish_reason = js_or (get claudeResponse ''stop_reason'') (JStr ''stop'') \<rparr>],
                    oa_usage = \<lparr> prompt_tokens = inputTokens,
                                 completion_tokens = outputTokens,
                                 total_tokens = js_add inputTokens outputTokens \<rparr> \<rparr>))"

section \<open>The Anthropic-shaped response (server.js, POST /v1/messages)\<close>

record text_block =
  block_type :: string
  block_text :: jsval

record anthropic_usage =
  input_tokens :: jsval
  output_tokens :: jsval

record anthropic_response =
  an_id :: string
  an_type :: string
  an_role :: string
  an_content :: "text_block list"
  an_model :: string
  stop_reason :: string
  stop_sequence :: jsval
  an_usage :: anthropic_usage

text \<open>\<open>response.choices[0]?.message?.content\<close> and \<open>response.choices[0]?.finish_reason\<close>.\<close>

definition first_content :: "openai_response \<Rightarrow> jsval" where
  "first_content response =
     (case oa_choices response of [] \<Rightarrow> JUndef | c # cs \<Rightarrow> msg_content (choice_message c))"

definition first_finish_reason :: "openai_response \<Rightarrow> jsval" where
  "first_finish_reason response =
     (case oa_choices response of [] \<Rightarrow> JUndef | c # cs \<Rightarrow> finish_reason c)"

definition anthropicResponse :: "openai_response \<Rightarrow> anthropic_response" where
  "anthropicResponse response =
     \<lparr> an_id = ''msg-'' @ oa_id response,
       an_type = ''message'',
       an_role = ''assistant'',
       an_content = [\<lparr> block_type = ''text'',
                       block_text = js_or (first_content response) (JStr '''') \<rparr>],
       an_model = oa_model response,
       stop_reason = (if first_finish_reason response = JStr ''stop'' then ''end_turn'' else ''max_tokens''),
       stop_sequence = JNull,
       an_usage = \<lparr> input_tokens = js_or (prompt_tokens (oa_usage response)) (JNum 0),
                    output_tokens = js_or (completion_tokens (oa_usage response)) (JNum 0) \<rparr> \<rparr>"

section \<open>JSON.stringify\<close>

text \<open>
  The text \<open>JSON.stringify\<close> produces. A string is quoted, with the quotation mark, the
  backslash and the control characters escaped. In an array \<open>undefined\<close> is written
  \<open>null\<close>; in an object a property whose value is \<open>undefined\<close> is left out. The callers
  pass object literals.
\<close>

fun hex_digit :: "nat \<Rightarrow> char" where
  "hex_digit n = ''0123456789abcdef'' ! (n mod 16)"

definition quote_char :: "char \<Rightarrow> string" where
  "quote_char c =
     (if c = CHR 0x22 then [CHR 0x5C, CHR 0x22]
      else if c = CHR 0x5C then [CHR 0x5C, CHR 0x5C]
      else if c = CHR 0x08 then [CHR 0x5C, CHR ''b'']
      else if c = CHR 0x0C then [CHR 0x5C, CHR ''f'']
      else if c = CHR 0x0A then [CHR 0x5C, CHR ''n'']
      else if c = CHR 0x0D then [CHR 0x5C, CHR ''r'']
      else if c = CHR 0x09 then [CHR 0x5C, CHR ''t'']
      else if (of_char c :: nat) < 32
        then [CHR 0x5C, CHR ''u'', CHR ''0'', CHR ''0'', hex_digit (of_char c div 16), hex_digit (of_char c)]
      else [c])"

definition quote_string :: "string \<Rightarrow> string" where
  "quote_string s = CHR 0x22 # concat (map quote_char s) @ [CHR 0x22]"

fun JSON_stringify :: "jsval \<Rightarrow> string"
  and stringify_elems :: "jsval list \<Rightarrow> string list"
  and stringify_members :: "(string \<times> jsval) list \<Rightarrow> string list" where
  "JSON_stringify JUndef = ''null''"
| "JSON_stringify JNull = ''null''"
| "JSON_stringify JNaN = ''null''"
| "JSON_stringify (JBool b) = (if b then ''true'' else ''false'')"
| "JSON_stringify (JNum n) = int_to_string n"
| "JSON_stringify (JStr s) = quote_string s"
| "JSON_stringify (JArr xs) = ''['' @ join '','' (stringify_elems xs) @ '']''"
| "JSON_stringify (JObj kvs) = ''{'' @ join '','' (stringify_members kvs) @ ''}''"
| "stringify_elems [] = []"
| "stringify_elems (x # xs) = JSON_stringify x # stringify_elems xs"
| "stringify_members [] = []"
| "stringify_members ((k, v) # kvs) =
     (if v = JUndef then stringify_members kvs
      else (quote_string k @ '':'' @ JSON_stringify v) # stringify_members kvs)"

section \<open>Requests and configuration\<close>

text \<open>
  A request body: the fields the executors read. A message is an object with \<open>role\<close>
  and \<open>content\<close>, each of any value (\<open>undefined\<close> when absent). The model is a string or
  absent.
\<close>

record message =
  role :: jsval
  content :: jsval

record request =
  model :: "string option"
  messages :: "message list"
  max_tokens :: jsval
  temperature :: jsval

text \<open>\<open>config.claude\<close>: the fields the executors read.\<close>

record claude_config =
  cliPath :: string
  defaultModel :: string
  timeout :: nat

text \<open>\<open>request.model || config.claude.defaultModel\<close>\<close>

definition model_or_default :: "claude_config \<Rightarrow> request \<Rightarrow> string" where
  "model_or_default config request =
     (case model request of
        None \<Rightarrow> defaultModel config
      | Some m \<Rightarrow> if m \<noteq> [] then m else defaultModel config)"

section \<open>The request validator (middleware.js)\<close>

text \<open>
  \<open>validateChatCompletionRequest\<close>: the code of the 400 response it sends, or \<open>None\<close>
  when it calls \<open>next()\<close>.
\<close>

fun validate_messages :: "message list \<Rightarrow> string option" where
  "validate_messages [] = None"
| "validate_messages (msg # msgs) =
     (if \<not> truthy (role msg) \<or> \<not> truthy (content msg) then Some ''invalid_message_format''
      else if role msg \<notin> {JStr ''system'', JStr ''user'', JStr ''assistant''} then Some ''invalid_role''
      else validate_messages msgs)"

definition validateChatCompletionRequest :: "request \<Rightarrow> string option" where
  "validateChatCompletionRequest req =
     (if messages req = [] then Some ''invalid_messages'' else validate_messages (messages req))"

section \<open>Argument vector and stdin payload (claude-executor.js)\<close>

text \<open>
  The statements that add \<open>--settings\<close>; both executors contain them.
\<close>

definition settings_args :: "request \<Rightarrow> string list" where
  "settings_args request =
     (if truthy (max_tokens request) \<or> temperature request \<noteq> JUndef then
        [''--settings'',
         JSON_stringify (JObj
           ((if truthy (max_tokens request) then [(''maxTokens'', max_tokens request)] else []) @
            (if temperature request \<noteq> JUndef then [(''temperature'', temperature request)] else [])))]
      else [])"

definition buildClaudeArgs :: "claude_config \<Rightarrow> request \<Rightarrow> string \<Rightarrow> string \<Rightarrow> string list" where
  "buildClaudeArgs config request input_format output_format =
     [''--print'', ''--dangerously-skip-permissions''] @
     (if input_format \<noteq> ''text'' then [''--input-format'', input_format] else []) @
     [''--output-format'', output_format] @
     (if output_format = ''stream-json'' then [''--verbose''] else []) @
     [''--model'', model_or_default config request] @
     settings_args request"

text \<open>
  The loop of the text branch: what each message pushes onto \<open>textParts\<close>. A user
  message pushes its content as it is; the other two push a string built by a template
  literal.
\<close>

fun text_parts :: "message list \<Rightarrow> jsval list" where
  "text_parts [] = []"
| "text_parts (msg # msgs) =
     (if role msg = JStr ''system'' then JStr (''System: '' @ js_to_string (content msg)) # text_parts msgs
      else if role msg = JStr ''user'' then content msg # text_parts msgs
      else if role msg = JStr ''assistant'' then JStr (''Assistant: '' @ js_to_string (content msg)) # text_parts msgs
      else text_parts msgs)"

definition json_line :: "message \<Rightarrow> string" where
  "json_line msg =
     JSON_stringify (JObj [(''type'', JStr (if role msg = JStr ''user'' then ''user'' else ''control'')),
                           (''role'', role msg),
                           (''content'', content msg)])"

definition prepareInput :: "request \<Rightarrow> string \<Rightarrow> string" where
  "prepareInput request input_format =
     (if input_format = ''stream-json'' then join ''\<newline>'' (map json_line (messages request))
      else array_join (text_parts (messages request)) ''\<newline>\<newline>'')"

section \<open>The process runner (claude-executor.js, \<open>_spawnClaudeProcess\<close>)\<close>

text \<open>
  The promise that \<open>_spawnClaudeProcess\<close> returns is settled by callbacks, which the
  runtime calls one at a time. A run is the list of callbacks in the order they are
  called: data on stdout or stderr, the \<open>error\<close> event of the process with its message,
  the \<open>close\<close> event with the exit code (\<open>null\<close>, here \<open>None\<close>, when a signal ended the
  process), and the expiry of the two timers. \<open>JSON.parse\<close> is the parameter \<open>parse\<close>:
  the parsed value, or the message of the SyntaxError it threw.
\<close>

datatype signal = SIGTERM | SIGKILL

datatype proc_event =
    StdoutData string
  | StderrData string
  | ProcError string
  | Close "int option"
  | TimeoutFires
  | EscalationFires

text \<open>
  The variables of the closure, the pending timers with their delays in milliseconds,
  the signals sent with \<open>claudeProcess.kill\<close>, and how the promise was settled, if it
  was.
\<close>

record runner_state =
  stdout :: string
  stderr :: string
  processExited :: bool
  timeoutHandle :: "nat option"
  escalationTimer :: "nat option"
  signals :: "signal list"
  settled :: "(js_error + jsval) option"

text \<open>\<open>resolve\<close> and \<open>reject\<close>: only the first call settles the promise.\<close>

definition settle :: "js_error + jsval \<Rightarrow> runner_state \<Rightarrow> runner_state" where
  "settle v s = (if settled s = None then s\<lparr>settled := Some v\<rparr> else s)"

definition cleanup :: "runner_state \<Rightarrow> runner_state" where
  "cleanup s = s\<lparr>timeoutHandle := None, processExited := True\<rparr>"

text \<open>\<open>`${code}`\<close> for the argument of the \<open>close\<close> event.\<close>

definition code_value :: "int option \<Rightarrow> jsval" where
  "code_value code = (case code of None \<Rightarrow> JNull | Some c \<Rightarrow> JNum c)"

text \<open>\<open>stderr || stdout || 'Unknown error'\<close>\<close>

definition errorMsg :: "runner_state \<Rightarrow> string" where
  "errorMsg s = (if stderr s \<noteq> [] then stderr s else if stdout s \<noteq> [] then stdout s else ''Unknown error'')"

text \<open>
  The state when \<open>_spawnClaudeProcess\<close> returns: the input was written and the timeout
  armed, or \<open>stdin.write\<close> threw (its message is \<open>write_error\<close>), in which case the
  promise is rejected and no timer is set.
\<close>

definition spawnClaudeProcess :: "claude_config \<Rightarrow> string option \<Rightarrow> runner_state" where
  "spawnClaudeProcess config write_error =
     (let s0 = \<lparr> stdout = [], stderr = [], processExited = False, timeoutHandle = None,
                  escalationTimer = None, signals = [], settled = None \<rparr>
      in case write_error of
           Some m \<Rightarrow> settle (Inl (Error (''Failed to write to Claude stdin: '' @ m))) (cleanup s0)
         | None \<Rightarrow> s0\<lparr>timeoutHandle := Some (timeout config)\<rparr>)"

fun runner_step :: "(string \<Rightarrow> string + jsval) \<Rightarrow> claude_config \<Rightarrow> runner_state \<Rightarrow> proc_event \<Rightarrow> runner_state" where
  "runner_step parse config s (StdoutData d) = s\<lparr>stdout := stdout s @ d\<rparr>"
| "runner_step parse config s (StderrData d) = s\<lparr>stderr := stderr s @ d\<rparr>"
| "runner_step parse config s (ProcError m) =
     settle (Inl (Error (''Failed to spawn Claude process: '' @ m))) (cleanup s)"
| "runner_step parse config s (Close code) =
     (let s1 = cleanup s in
      if code \<noteq> Some 0 then
        settle (Inl (Error (''Claude process exited with code '' @ js_to_string (code_value code) @ '': '' @ errorMsg s1))) s1
      else (case parse (stdout s1) of
              Inr response \<Rightarrow> settle (Inr response) s1
            | Inl m \<Rightarrow> settle (Inl (Error (''Failed to parse Claude response: '' @ m))) s1))"
| "runner_step parse config s TimeoutFires =
     (if timeoutHandle s = None then s
      else (let s1 = s\<lparr>timeoutHandle := None\<rparr> in
            if \<not> processExited s1 then
              settle (Inl (Error (''Claude process timeout after '' @ int_to_string (int (timeout config)) @ ''ms'')))
                (s1\<lparr>signals := signals s1 @ [SIGTERM], escalationTimer := Some 5000\<rparr>)
            else s1))"
| "runner_step parse config s EscalationFires =
     (if escalationTimer s = None then s
      else (let s1 = s\<lparr>escalationTimer := None\<rparr> in
            if \<not> processExited s1 then s1\<lparr>signals := signals s1 @ [SIGKILL]\<rparr> else s1))"

definition runner :: "(string \<Rightarrow> string + jsval) \<Rightarrow> claude_config \<Rightarrow> string option \<Rightarrow> proc_event list \<Rightarrow> runner_state" where
  "runner parse config write_error events =
     foldl (runner_step parse config) (spawnClaudeProcess config write_error) events"

section \<open>The buffered entry point (claude-executor.js, \<open>execute\<close>)\<close>

text \<open>
  The second argument of \<open>execute\<close>: a boolean (the older calling convention) or an
  object with the two formats, each a string or absent.
\<close>

datatype exec_options = Legacy bool | Options "string option" "string option"

definition or_default :: "string option \<Rightarrow> string \<Rightarrow> string" where
  "or_default v d = (case v of None \<Rightarrow> d | Some x \<Rightarrow> if x \<noteq> [] then x else d)"

fun input_format_of :: "exec_options \<Rightarrow> string" where
  "input_format_of (Legacy b) = (if b then ''stream-json'' else ''text'')"
| "input_format_of (Options i out) = or_default i ''text''"

fun output_format_of :: "exec_options \<Rightarrow> string" where
  "output_format_of (Legacy b) = (if b then ''stream-json'' else ''json'')"
| "output_format_of (Options i out) = or_default out ''json''"

text \<open>
  What one call of \<open>execute\<close> does: the process it spawns (executable, arguments, the
  text written to stdin), the signals it sends, and how the returned promise ends:
  \<open>None\<close> while it is pending, else the thrown error or the response. Besides the
  request and the options, the inputs are what the environment supplies: the UUID, the
  clock reading at the conversion, whether the stdin write threw, and the callbacks of
  the run.
\<close>

record execution =
  spawn_path :: string
  spawn_args :: "string list"
  stdin_payload :: string
  signals_sent :: "signal list"
  outcome :: "(js_error + openai_response) option"

definition execute ::
  "(string \<Rightarrow> string + jsval) \<Rightarrow> claude_config \<Rightarrow> request \<Rightarrow> exec_options \<Rightarrow> string \<Rightarrow> int \<Rightarrow>
   string option \<Rightarrow> proc_event list \<Rightarrow> execution" where
  "execute parse config request options requestId now write_error events =
     (let input_format = input_format_of options;
          output_format = output_format_of options;
          args = buildClaudeArgs config request input_format output_format;
          input = prepareInput request input_format;
          final = runner parse config write_error events
      in \<lparr> spawn_path = cliPath config,
           spawn_args = args,
           stdin_payload = input,
           signals_sent = signals final,
           outcome =
             (case settled final of
                None \<Rightarrow> None
              | Some (Inl e) \<Rightarrow> Some (Inl e)
              | Some (Inr response) \<Rightarrow>
                  Some (convertToOpenAiFormat response (model_or_default config request) requestId now)) \<rparr>)"

section \<open>The streaming executor (claude-executor-streaming.js)\<close>

text \<open>\<open>_convertMessagesToText\<close>\<close>

definition convertMessagesToText :: "message list \<Rightarrow> string" where
  "convertMessagesToText msgs = array_join (text_parts msgs) ''\<newline>\<newline>''"

text \<open>
  \<open>str.split('\n')\<close>: the pieces between line feeds, one more than there are line
  feeds.
\<close>

fun split_lines :: "string \<Rightarrow> string list" where
  "split_lines [] = [[]]"
| "split_lines (c # cs) =
     (if c = CHR 0x0A then [] # split_lines cs
      else (case split_lines cs of
              [] \<Rightarrow> [[c]]
            | l # ls \<Rightarrow> (c # l) # ls))"

text \<open>
  \<open>line.trim()\<close> is the empty string: every character of the line is white space (the
  ASCII white space characters; the others that \<open>trim\<close> removes lie outside ASCII).
\<close>

definition is_space :: "char \<Rightarrow> bool" where
  "is_space c = (c \<in> {CHR 0x09, CHR 0x0A, CHR 0x0B, CHR 0x0C, CHR 0x0D, CHR 0x20})"

definition blank :: "string \<Rightarrow> bool" where
  "blank line = list_all is_space line"

text \<open>
  The loop over \<open>message.content\<close>: \<open>content += block.text\<close> for the blocks of type
  \<open>text\<close>. Reading \<open>type\<close> of a \<open>null\<close> block throws.
\<close>

fun append_text_blocks :: "string \<Rightarrow> jsval list \<Rightarrow> js_error + string" where
  "append_text_blocks acc [] = Inr acc"
| "append_text_blocks acc (block # blocks) =
     (if nullish block then Inl TypeError
      else if get block ''type'' = JStr ''text''
        then append_text_blocks (acc @ js_to_string (get block ''text'')) blocks
      else append_text_blocks acc blocks)"

definition delta_content :: "jsval \<Rightarrow> js_error + string" where
  "delta_content message =
     (case get message ''content'' of
        JArr blocks \<Rightarrow> append_text_blocks [] blocks
      | c \<Rightarrow> Inr [])"

definition sseChunk :: "string \<Rightarrow> int \<Rightarrow> string \<Rightarrow> string \<Rightarrow> jsval \<Rightarrow> jsval" where
  "sseChunk requestId now model_name content_text message =
     JObj [(''id'', JStr (''chatcmpl-'' @ requestId)),
           (''object'', JStr ''chat.completion.chunk''),
           (''created'', JNum (now div 1000)),
           (''model'', JStr model_name),
           (''choices'', JArr [JObj [(''index'', JNum 0),
                                     (''delta'', JObj [(''content'', JStr content_text)]),
                                     (''finish_reason'', js_or (get message ''stop_reason'') JNull)]])]"

definition sse_frame :: "jsval \<Rightarrow> string" where
  "sse_frame v = ''data: '' @ JSON_stringify v @ ''\<newline>\<newline>''"

definition done_frame :: string where
  "done_frame = ''data: [DONE]\<newline>\<newline>''"

text \<open>
  The body of the loop in the stdout handler: what one line makes the handler write.
  Whatever is thrown inside the \<open>try\<close> (by \<open>JSON.parse\<close>, or by a property read on
  \<open>null\<close>) is caught and logged, and the loop goes on with the next line.
\<close>

definition handle_line ::
  "(string \<Rightarrow> string + jsval) \<Rightarrow> string \<Rightarrow> string \<Rightarrow> int \<Rightarrow> string \<Rightarrow> string list" where
  "handle_line parse requestId model_name now line =
     (if blank line then []
      else (case parse line of
              Inl m \<Rightarrow> []
            | Inr event \<Rightarrow>
                if nullish event then []
                else if get event ''type'' = JStr ''assistant'' \<and> truthy (get event ''message'') then
                  (case delta_content (get event ''message'') of
                     Inl e \<Rightarrow> []
                   | Inr content_text \<Rightarrow>
                       [sse_frame (sseChunk requestId now model_name content_text (get event ''message''))])
                else []))"

definition stdout_handler ::
  "(string \<Rightarrow> string + jsval) \<Rightarrow> string \<Rightarrow> string \<Rightarrow> int \<Rightarrow> string \<Rightarrow> string list" where
  "stdout_handler parse requestId model_name now data =
     concat (map (handle_line parse requestId model_name now) (split_lines data))"

text \<open>
  The callbacks of a streaming run: data on stdout (with the clock reading taken while
  it is handled) and on stderr, the \<open>error\<close> and \<open>close\<close> events of the process, and the
  \<open>close\<close> event of the HTTP response, which a client disconnect raises.
\<close>

datatype stream_event =
    StreamStdout string int
  | StreamStderr string
  | StreamError string
  | StreamClose "int option"
  | ResClose

text \<open>
  The state of one streaming call: the strings passed to \<open>res.write\<close> in order, whether
  \<open>res.end\<close> was called, the closure's two variables, the signals sent, the \<open>killed\<close>
  flag of the process object, and whether the process has gone (\<open>kill\<close> then sends
  nothing).
\<close>

record stream_state =
  writes :: "string list"
  ended :: bool
  hasError :: bool
  stderrData :: string
  stream_signals :: "signal list"
  killed :: bool
  exited :: bool

definition spawn_error_frame :: "string \<Rightarrow> string" where
  "spawn_error_frame m =
     sse_frame (JObj [(''error'', JObj [(''message'', JStr (''Failed to spawn Claude process: '' @ m)),
                                        (''type'', JStr ''spawn_error'')])])"

definition execution_error_frame :: "int option \<Rightarrow> string \<Rightarrow> string" where
  "execution_error_frame code err =
     sse_frame (JObj [(''error'',
       JObj [(''message'', JStr (''Claude process exited with code '' @ js_to_string (code_value code) @ '': '' @ err)),
             (''type'', JStr ''execution_error''),
             (''code'', code_value code)])])"

definition input_error_frame :: "string \<Rightarrow> string" where
  "input_error_frame m =
     sse_frame (JObj [(''error'', JObj [(''message'', JStr (''Failed to write input: '' @ m)),
                                        (''type'', JStr ''input_error'')])])"

text \<open>
  The state when \<open>executeStreaming\<close> has registered its handlers and written the input
  (\<open>write_error\<close> is the message of what \<open>stdin.write\<close> threw, if it threw).
\<close>

definition stream_start :: "string option \<Rightarrow> stream_state" where
  "stream_start write_error =
     (let s0 = \<lparr> writes = [], ended = False, hasError = False, stderrData = [],
                  stream_signals = [], killed = False, exited = False \<rparr>
      in case write_error of
           None \<Rightarrow> s0
         | Some m \<Rightarrow> s0\<lparr>writes := [input_error_frame m, done_frame], ended := True\<rparr>)"

fun stream_step ::
  "(string \<Rightarrow> string + jsval) \<Rightarrow> string \<Rightarrow> string \<Rightarrow> stream_state \<Rightarrow> stream_event \<Rightarrow> stream_state" where
  "stream_step parse requestId model_name s (StreamStdout d now) =
     s\<lparr>writes := writes s @ stdout_handler parse requestId model_name now d\<rparr>"
| "stream_step parse requestId model_name s (StreamStderr d) = s\<lparr>stderrData := stderrData s @ d\<rparr>"
| "stream_step parse requestId model_name s (StreamError m) =
     s\<lparr>hasError := True, writes := writes s @ [spawn_error_frame m, done_frame], ended := True\<rparr>"
| "stream_step parse requestId model_name s (StreamClose code) =
     (let s1 = (if code \<noteq> Some 0
                then s\<lparr>hasError := True, writes := writes s @ [execution_error_frame code (stderrData s)]\<rparr>
                else s)
      in s1\<lparr>writes := writes s1 @ [done_frame], ended := True, exited := True\<rparr>)"
| "stream_step parse requestId model_name s ResClose =
     (if \<not> killed s then
        (if exited s then s else s\<lparr>stream_signals := stream_signals s @ [SIGTERM], killed := True\<rparr>)
      else s)"

record streaming =
  stream_args :: "string list"
  stream_input :: string
  final_state :: stream_state

definition executeStreaming ::
  "(string \<Rightarrow> string + jsval) \<Rightarrow> claude_config \<Rightarrow> request \<Rightarrow> string \<Rightarrow> string option \<Rightarrow>
   stream_event list \<Rightarrow> streaming" where
  "executeStreaming parse config request requestId write_error events =
     \<lparr> stream_args =
         [''--print'', ''--dangerously-skip-permissions'', ''--output-format'', ''stream-json'',
          ''--verbose'', ''--model'', model_or_default config request] @ settings_args request,
       stream_input = convertMessagesToText (messages request),
       final_state =
         foldl (stream_step parse requestId (model_or_default config request)) (stream_start write_error) events \<rparr>"

section \<open>Definitions used to state the properties\<close>





text \<open>Backend outputs used as examples.\<close>

definition scenario_output :: jsval where
  "scenario_output =
     JObj [(''result'', JStr ''4''),
           (''usage'', JObj [(''input_tokens'', JNum 5), (''output_tokens'', JNum 1)])]"


definition length_stop_output :: jsval where
  "length_stop_output = JObj [(''result'', JStr ''4''), (''stop_reason'', JStr ''length'')]"

text \<open>
  How the backend reads an argument vector: a sequence of options, each a flag, the
  four flags below followed by their value.
\<close>

definition takes_value :: "string \<Rightarrow> bool" where
  "takes_value flag = (flag \<in> {''--input-format'', ''--output-format'', ''--model'', ''--settings''})"

fun options_of :: "string list \<Rightarrow> (string \<times> string option) list" where
  "options_of [] = []"
| "options_of [flag] = [(flag, None)]"
| "options_of (flag # v # rest) =
     (if takes_value flag then (flag, Some v) # options_of rest
      else (flag, None) # options_of (v # rest))"

text \<open>The properties of the settings object: those of the two that are set.\<close>

definition settings_fields :: "request \<Rightarrow> (string \<times> jsval) list" where
  "settings_fields request =
     (if truthy (max_tokens request) then [(''maxTokens'', max_tokens request)] else []) @
     (if temperature request \<noteq> JUndef then [(''temperature'', temperature request)] else [])"

text \<open>A configuration and requests used as examples.\<close>

definition config1 :: claude_config where
  "config1 = \<lparr> cliPath = ''claude'', defaultModel = ''sonnet'', timeout = 600000 \<rparr>"

definition request2 :: request where
  "request2 = \<lparr> model = None, messages = [\<lparr> role = JStr ''user'', content = JStr ''2+2?'' \<rparr>],
                 max_tokens = JNum 100, temperature = JNum 1 \<rparr>"




text \<open>
  \<open>JSON.parse\<close> on the texts that occur in the examples: the value of each of the three
  valid texts; every other text of the examples is not valid JSON.
\<close>

definition assistant_event :: jsval where
  "assistant_event =
     JObj [(''type'', JStr ''assistant''),
           (''message'', JObj [(''content'', JArr [JObj [(''type'', JStr ''text''), (''text'', JStr ''Hi'')]])])]"

definition system_event :: jsval where
  "system_event = JObj [(''type'', JStr ''system''), (''subtype'', JStr ''init'')]"

definition example_texts :: "(string \<times> jsval) list" where
  \<open>example_texts =
     [(''{"result":"4","usage":{"input_tokens":5,"output_tokens":1}}'', scenario_output),
      (''{"type":"assistant","message":{"content":[{"type":"text","text":"Hi"}]}}'', assistant_event),
      (''{"type":"system","subtype":"init"}'', system_event)]\<close>

definition example_parse :: "string \<Rightarrow> string + jsval" where
  "example_parse text =
     (case map_of example_texts text of Some v \<Rightarrow> Inr v | None \<Rightarrow> Inl ''Unexpected token'')"

definition empty_request :: request where
  "empty_request = \<lparr> model = None, messages = [], max_tokens = JUndef, temperature = JUndef \<rparr>"

text \<open>
  Runs of the buffered executor: the events that carry data, and the text captured from
  them on each stream. \<open>captured_text\<close> is the standard-error text, or the standard-output
  text when that is empty, or \<open>Unknown error\<close> when both are.
\<close>

fun is_data :: "proc_event \<Rightarrow> bool" where
  "is_data (StdoutData d) = True"
| "is_data (StderrData d) = True"
| "is_data e = False"

fun stdout_of :: "proc_event list \<Rightarrow> string" where
  "stdout_of [] = []"
| "stdout_of (StdoutData d # es) = d @ stdout_of es"
| "stdout_of (e # es) = stdout_of es"

fun stderr_of :: "proc_event list \<Rightarrow> string" where
  "stderr_of [] = []"
| "stderr_of (StderrData d # es) = d @ stderr_of es"
| "stderr_of (e # es) = stderr_of es"

definition captured_text :: "proc_event list \<Rightarrow> string" where
  "captured_text events =
     (if stderr_of events \<noteq> [] then stderr_of events
      else if stdout_of events \<noteq> [] then stdout_of events
      else ''Unknown error'')"








text \<open>
  The error with which a timed-out call is rejected, and the stream events that carry
  data.
\<close>

definition timeout_error :: "claude_config \<Rightarrow> js_error + jsval" where
  "timeout_error config =
     Inl (Error (''Claude process timeout after '' @ int_to_string (int (timeout config)) @ ''ms''))"

fun stream_data :: "stream_event \<Rightarrow> bool" where
  "stream_data (StreamStdout d now) = True"
| "stream_data (StreamStderr d) = True"
| "stream_data e = False"

section \<open>Properties of the response translation\<close>


lemma opt_prop_truthy: "truthy (opt_prop v k) = truthy (get v k)"
  by (cases v) (simp_all add: opt_prop_def)


text \<open>A \<open>null\<close> among the blocks makes the translation throw.\<close>

lemma response_content_null_block:
  "response_content (JObj [(''content'', JArr [JNull])]) = Inl TypeError"
  by (simp add: response_content_def)






lemma content_field_truthy_or_empty:
  assumes "truthy v"
    "(case v of
        JArr blocks \<Rightarrow>
          (case filter_text_blocks blocks of
             Inl e \<Rightarrow> Inl e
           | Inr ts \<Rightarrow> Inr (JStr (array_join (map (\<lambda>block. get block ''text'') ts) ''\<newline>'')))
      | c \<Rightarrow> Inr c) = Inr c"
  shows "truthy c \<or> c = JStr ''''"
  using assms by (cases v) (auto split: sum.splits)

lemma response_content_truthy_or_empty:
  assumes "response_content r = Inr c"
  shows "truthy c \<or> c = JStr ''''"
proof (cases "is_string r")
  case True
  then show ?thesis using assms by (cases r) (auto simp: response_content_def)
next
  case False
  then show ?thesis using assms
    by (auto simp: response_content_def opt_prop_truthy split: if_splits
        dest: content_field_truthy_or_empty)
qed

lemma js_or_content: "truthy c \<or> is_string c \<Longrightarrow> js_or c (JStr '''') = c"
  by (cases c) (auto simp: js_or_def)

text \<open>
  C8. For every response the translation produces, and for every response whose content is a
  string, the Anthropic-shaped response carries the same content as the OpenAI-shaped
  one; its stop reason is \<open>end_turn\<close> exactly when the finish reason is \<open>stop\<close>, and
  \<open>max_tokens\<close> for every other finish reason.
\<close>

theorem projections_agree:
  assumes "convertToOpenAiFormat r m i t = Inr resp \<or>
           (\<exists>c cs. oa_choices resp = c # cs \<and> is_string (msg_content (choice_message c)))"
  shows "\<exists>c cs. oa_choices resp = c # cs \<and>
           an_content (anthropicResponse resp) =
             [\<lparr> block_type = ''text'', block_text = msg_content (choice_message c) \<rparr>] \<and>
           (stop_reason (anthropicResponse resp) = ''end_turn'' \<longleftrightarrow> finish_reason c = JStr ''stop'') \<and>
           (finish_reason c \<noteq> JStr ''stop'' \<longrightarrow> stop_reason (anthropicResponse resp) = ''max_tokens'')"
proof -
  have "\<exists>c cs. oa_choices resp = c # cs \<and>
          (truthy (msg_content (choice_message c)) \<or> is_string (msg_content (choice_message c)))"
    using assms
  proof
    assume a: "convertToOpenAiFormat r m i t = Inr resp"
    then obtain c where c: "response_content r = Inr c"
      by (auto simp: convertToOpenAiFormat_def split: sum.splits)
    from response_content_truthy_or_empty [OF c] have "truthy c \<or> is_string c" by auto
    with a c show ?thesis by (auto simp: convertToOpenAiFormat_def Let_def)
  next
    assume "\<exists>c cs. oa_choices resp = c # cs \<and> is_string (msg_content (choice_message c))"
    then show ?thesis by blast
  qed
  then obtain c cs where c: "oa_choices resp = c # cs"
    and t: "truthy (msg_content (choice_message c)) \<or> is_string (msg_content (choice_message c))"
    by blast
  have "an_content (anthropicResponse resp) =
          [\<lparr> block_type = ''text'', block_text = msg_content (choice_message c) \<rparr>]"
    using c js_or_content [OF t] by (simp add: anthropicResponse_def first_content_def)
  moreover have "stop_reason (anthropicResponse resp) = ''end_turn'' \<longleftrightarrow> finish_reason c = JStr ''stop''"
    using c by (simp add: anthropicResponse_def first_finish_reason_def)
  moreover have "finish_reason c \<noteq> JStr ''stop'' \<longrightarrow> stop_reason (anthropicResponse resp) = ''max_tokens''"
    using c by (simp add: anthropicResponse_def first_finish_reason_def)
  ultimately show ?thesis using c by blast
qed

theorem projections_agree_witness:
  "\<exists>resp. convertToOpenAiFormat length_stop_output ''sonnet'' ''r1'' 0 = Inr resp \<and>
     an_content (anthropicResponse resp) = [\<lparr> block_type = ''text'', block_text = JStr ''4'' \<rparr>] \<and>
     first_content resp = JStr ''4'' \<and>
     first_finish_reason resp = JStr ''length'' \<and>
     stop_reason (anthropicResponse resp) = ''max_tokens''"
proof -
  obtain resp where r: "convertToOpenAiFormat length_stop_output ''sonnet'' ''r1'' 0 = Inr resp"
    by (simp add: convertToOpenAiFormat_def length_stop_output_def response_content_def Let_def)
  have ch: "oa_choices resp = [\<lparr> choice_index = 0,
       choice_message = \<lparr> msg_role = ''assistant'', msg_content = JStr ''4'' \<rparr>,
       finish_reason = JStr ''length'' \<rparr>]"
    using r by (auto simp: convertToOpenAiFormat_def length_stop_output_def response_content_def Let_def js_or_def)
  from projections_agree [of length_stop_output "''sonnet''" "''r1''" 0 resp] r
  obtain c cs where c: "oa_choices resp = c # cs"
    and a: "an_content (anthropicResponse resp) = [\<lparr> block_type = ''text'', block_text = msg_content (choice_message c) \<rparr>]"
    and s: "finish_reason c \<noteq> JStr ''stop'' \<longrightarrow> stop_reason (anthropicResponse resp) = ''max_tokens''"
    by blast
  from c ch have c': "c = \<lparr> choice_index = 0,
       choice_message = \<lparr> msg_role = ''assistant'', msg_content = JStr ''4'' \<rparr>,
       finish_reason = JStr ''length'' \<rparr>" by simp
  have "an_content (anthropicResponse resp) = [\<lparr> block_type = ''text'', block_text = JStr ''4'' \<rparr>]"
    using a c' by simp
  moreover have "stop_reason (anthropicResponse resp) = ''max_tokens''" using s c' by simp
  moreover have "first_content resp = JStr ''4''" "first_finish_reason resp = JStr ''length''"
    using ch by (simp_all add: first_content_def first_finish_reason_def)
  ultimately show ?thesis using r by blast
qed

text \<open>
  Two runs on the same output, a second apart on the clock, differ (in \<open>created\<close>).
\<close>

theorem convertToOpenAiFormat_clock_counterexample:
  "convertToOpenAiFormat scenario_output ''sonnet'' ''r1'' 1000 \<noteq>
   convertToOpenAiFormat scenario_output ''sonnet'' ''r1'' 2000"
  by (simp add: convertToOpenAiFormat_def scenario_output_def response_content_def Let_def)

text \<open>
  C9 (as amended). Two runs of the translation on the same backend output, model and
  request identifier end the same way: both throw the same error, or both return a
  response, and the two responses differ at most in \<open>created\<close>, the clock reading in
  seconds. They are identical when the clock shows the same second at both runs.
\<close>

theorem convertToOpenAiFormat_repeatable:
  "(case convertToOpenAiFormat r m i t1 of
      Inl e \<Rightarrow> convertToOpenAiFormat r m i t2 = Inl e
    | Inr resp \<Rightarrow> convertToOpenAiFormat r m i t2 = Inr (resp\<lparr>oa_created := t2 div 1000\<rparr>)) \<and>
   (t1 div 1000 = t2 div 1000 \<longrightarrow> convertToOpenAiFormat r m i t1 = convertToOpenAiFormat r m i t2)"
  by (auto simp: convertToOpenAiFormat_def Let_def split: sum.splits)

theorem convertToOpenAiFormat_repeatable_witness:
  "(1000::int) div 1000 = 1999 div 1000 \<and>
   convertToOpenAiFormat scenario_output ''sonnet'' ''r1'' 1000 =
   convertToOpenAiFormat scenario_output ''sonnet'' ''r1'' 1999"
  using convertToOpenAiFormat_repeatable [of scenario_output "''sonnet''" "''r1''" 1000 1999]
  by simp

section \<open>Properties of the argument vector and the stdin payload\<close>

lemma options_of_buildClaudeArgs:
  "options_of (buildClaudeArgs config request i out) =
     [(''--print'', None), (''--dangerously-skip-permissions'', None)] @
     (if i \<noteq> ''text'' then [(''--input-format'', Some i)] else []) @
     [(''--output-format'', Some out)] @
     (if out = ''stream-json'' then [(''--verbose'', None)] else []) @
     [(''--model'', Some (model_or_default config request))] @
     (if truthy (max_tokens request) \<or> temperature request \<noteq> JUndef
      then [(''--settings'', Some (JSON_stringify (JObj (settings_fields request))))] else [])"
  by (simp add: buildClaudeArgs_def settings_args_def takes_value_def settings_fields_def)

text \<open>
  C7. The argument vector depends on the request only through the model, \<open>max_tokens\<close> and
  \<open>temperature\<close> (besides the two formats and the configured default model). It always
  contains \<open>--print\<close> and \<open>--dangerously-skip-permissions\<close> and the option
  \<open>--output-format\<close> with the output format; it contains the flag \<open>--verbose\<close> exactly when
  the output format is \<open>stream-json\<close> (read as options: a model that is itself named
  \<open>--verbose\<close> is the value of \<open>--model\<close>, not a flag). When \<open>max_tokens\<close> is set (truthy) or \<open>temperature\<close> is
  set (not \<open>undefined\<close>), it contains one \<open>--settings\<close> option, whose value is the JSON text
  of one object holding those of the two that are set; when neither is set it contains no
  \<open>--settings\<close> option.
\<close>

theorem buildClaudeArgs_flags:
  "(model_or_default config request = model_or_default config request' \<and>
    max_tokens request = max_tokens request' \<and> temperature request = temperature request'
      \<longrightarrow> buildClaudeArgs config request i out = buildClaudeArgs config request' i out) \<and>
   ''--print'' \<in> set (buildClaudeArgs config request i out) \<and>
   ''--dangerously-skip-permissions'' \<in> set (buildClaudeArgs config request i out) \<and>
   ''--output-format'' \<in> set (buildClaudeArgs config request i out) \<and>
   (out = ''stream-json'' \<longrightarrow> ''--verbose'' \<in> set (buildClaudeArgs config request i out)) \<and>
   (''--print'', None) \<in> set (options_of (buildClaudeArgs config request i out)) \<and>
   (''--dangerously-skip-permissions'', None) \<in> set (options_of (buildClaudeArgs config request i out)) \<and>
   (''--output-format'', Some out) \<in> set (options_of (buildClaudeArgs config request i out)) \<and>
   (''--verbose'' \<in> fst ` set (options_of (buildClaudeArgs config request i out)) \<longleftrightarrow> out = ''stream-json'') \<and>
   filter (\<lambda>opt. fst opt = ''--settings'') (options_of (buildClaudeArgs config request i out)) =
     (if truthy (max_tokens request) \<or> temperature request \<noteq> JUndef
      then [(''--settings'', Some (JSON_stringify (JObj (settings_fields request))))] else [])"
proof -
  let ?args = "buildClaudeArgs config request i out"
  have d: "model_or_default config request = model_or_default config request' \<and>
    max_tokens request = max_tokens request' \<and> temperature request = temperature request'
      \<longrightarrow> ?args = buildClaudeArgs config request' i out"
    by (simp add: buildClaudeArgs_def settings_args_def)
  have m: "''--print'' \<in> set ?args" "''--dangerously-skip-permissions'' \<in> set ?args"
    "''--output-format'' \<in> set ?args" "out = ''stream-json'' \<longrightarrow> ''--verbose'' \<in> set ?args"
    by (simp_all add: buildClaudeArgs_def)
  have o: "(''--print'', None) \<in> set (options_of ?args)"
    "(''--dangerously-skip-permissions'', None) \<in> set (options_of ?args)"
    "(''--output-format'', Some out) \<in> set (options_of ?args)"
    by (simp_all add: options_of_buildClaudeArgs)
  have v: "''--verbose'' \<in> fst ` set (options_of ?args) \<longleftrightarrow> out = ''stream-json''"
    by (auto simp: options_of_buildClaudeArgs)
  have s: "filter (\<lambda>opt. fst opt = ''--settings'') (options_of ?args) =
     (if truthy (max_tokens request) \<or> temperature request \<noteq> JUndef
      then [(''--settings'', Some (JSON_stringify (JObj (settings_fields request))))] else [])"
    by (simp add: options_of_buildClaudeArgs)
  show ?thesis using d m o v s by blast
qed

theorem buildClaudeArgs_flags_witness:
  \<open>buildClaudeArgs config1 request2 ''text'' ''stream-json'' =
     buildClaudeArgs config1 (request2\<lparr>messages := []\<rparr>) ''text'' ''stream-json'' \<and>
   ''--verbose'' \<in> fst ` set (options_of (buildClaudeArgs config1 request2 ''text'' ''stream-json'')) \<and>
   filter (\<lambda>opt. fst opt = ''--settings'') (options_of (buildClaudeArgs config1 request2 ''text'' ''stream-json''))
     = [(''--settings'', Some ''{"maxTokens":100,"temperature":1}'')]\<close>
proof -
  let ?args = "buildClaudeArgs config1 request2 ''text'' ''stream-json''"
  have f: \<open>JSON_stringify (JObj (settings_fields request2)) = ''{"maxTokens":100,"temperature":1}''\<close>
    by (simp add: settings_fields_def request2_def quote_string_def quote_char_def
        int_to_string_def digits.simps)
  have m: "model_or_default config1 request2 = model_or_default config1 (request2\<lparr>messages := []\<rparr>) \<and>
      max_tokens request2 = max_tokens (request2\<lparr>messages := []\<rparr>) \<and>
      temperature request2 = temperature (request2\<lparr>messages := []\<rparr>)"
    by (simp add: model_or_default_def)
  have t: "truthy (max_tokens request2)" by (simp add: request2_def)
  note inst = buildClaudeArgs_flags [of config1 request2 "request2\<lparr>messages := []\<rparr>" "''text''" "''stream-json''"]
  from inst m have a: "?args = buildClaudeArgs config1 (request2\<lparr>messages := []\<rparr>) ''text'' ''stream-json''"
    by blast
  from inst have v: "''--verbose'' \<in> fst ` set (options_of ?args)" by blast
  from inst have "filter (\<lambda>opt. fst opt = ''--settings'') (options_of ?args) =
     (if truthy (max_tokens request2) \<or> temperature request2 \<noteq> JUndef
      then [(''--settings'', Some (JSON_stringify (JObj (settings_fields request2))))] else [])"
    by blast
  with t f have s: \<open>filter (\<lambda>opt. fst opt = ''--settings'') (options_of ?args)
     = [(''--settings'', Some ''{"maxTokens":100,"temperature":1}'')]\<close>
    by simp
  from a v s show ?thesis by blast
qed




section \<open>Properties of the buffered executor\<close>

text \<open>
  An empty list of messages: \<open>execute\<close> spawns the backend with an empty stdin payload
  and returns the response translated from its output.
\<close>

theorem empty_messages_counterexample:
  \<open>execute example_parse config1 empty_request (Options None None) ''r1'' 0 None
     [StdoutData ''{"result":"4","usage":{"input_tokens":5,"output_tokens":1}}'', Close (Some 0)]
   = \<lparr> spawn_path = ''claude'',
       spawn_args = [''--print'', ''--dangerously-skip-permissions'', ''--output-format'', ''json'',
                     ''--model'', ''sonnet''],
       stdin_payload = [],
       signals_sent = [],
       outcome = Some (Inr \<lparr> oa_id = ''chatcmpl-r1'', oa_object = ''chat.completion'', oa_created = 0,
                               oa_model = ''sonnet'',
                               oa_choices = [\<lparr> choice_index = 0,
                                                choice_message = \<lparr> msg_role = ''assistant'', msg_content = JStr ''4'' \<rparr>,
                                                finish_reason = JStr ''stop'' \<rparr>],
                               oa_usage = \<lparr> prompt_tokens = JNum 5, completion_tokens = JNum 1,
                                            total_tokens = JNum 6 \<rparr> \<rparr>) \<rparr>\<close>
  by (simp add: execute_def Let_def config1_def empty_request_def or_default_def buildClaudeArgs_def
      settings_args_def model_or_default_def prepareInput_def array_join_def runner_def
      spawnClaudeProcess_def cleanup_def settle_def example_parse_def example_texts_def
      scenario_output_def convertToOpenAiFormat_def response_content_def js_or_def opt_prop_def js_add_def)

text \<open>
  C5 (as amended). A request whose list of messages is empty is rejected by the validator
  in front of the executor (\<open>validateChatCompletionRequest\<close> answers 400 with code
  \<open>invalid_messages\<close>). The execution layer itself does not reject it: the stdin payload
  is the empty string, the subprocess is spawned with it, and the outcome of the call is
  the one the same run gives with any other list of messages.
\<close>

theorem empty_messages_reach_backend:
  assumes "messages request = []"
  shows "validateChatCompletionRequest request = Some ''invalid_messages'' \<and>
         prepareInput request input_format = [] \<and>
         stdin_payload (execute parse config request options requestId now write_error events) = [] \<and>
         outcome (execute parse config request options requestId now write_error events) =
           outcome (execute parse config (request\<lparr>messages := msgs\<rparr>) options requestId now write_error events)"
proof -
  have m: "model_or_default config (request\<lparr>messages := msgs\<rparr>) = model_or_default config request"
    by (simp add: model_or_default_def)
  have "outcome (execute parse config request options requestId now write_error events) =
           outcome (execute parse config (request\<lparr>messages := msgs\<rparr>) options requestId now write_error events)"
    by (simp add: execute_def Let_def m cong: option.case_cong sum.case_cong)
  moreover have "validateChatCompletionRequest request = Some ''invalid_messages''"
    using assms by (simp add: validateChatCompletionRequest_def)
  moreover have "prepareInput request input_format = []"
    using assms by (simp add: prepareInput_def array_join_def)
  moreover have "stdin_payload (execute parse config request options requestId now write_error events) = []"
    using assms by (simp add: execute_def Let_def prepareInput_def array_join_def)
  ultimately show ?thesis by blast
qed

theorem empty_messages_reach_backend_witness:
  "messages empty_request = [] \<and>
   validateChatCompletionRequest empty_request = Some ''invalid_messages'' \<and>
   stdin_payload (execute example_parse config1 empty_request (Options None None) ''r1'' 0 None []) = []"
  using empty_messages_reach_backend [of empty_request "''text''" example_parse config1 "Options None None" "''r1''" 0 None "[]" "[]"]
  by (simp add: empty_request_def)

lemma foldl_data:
  "list_all is_data events \<Longrightarrow>
   foldl (runner_step parse config) s events =
     s\<lparr>stdout := stdout s @ stdout_of events, stderr := stderr s @ stderr_of events\<rparr>"
proof (induction events arbitrary: s)
  case Nil
  then show ?case by simp
next
  case (Cons e es)
  then show ?case by (cases e) simp_all
qed

lemma runner_data:
  assumes "list_all is_data events"
  shows "runner parse config None events =
     \<lparr> stdout = stdout_of events, stderr = stderr_of events, processExited = False,
       timeoutHandle = Some (timeout config), escalationTimer = None, signals = [], settled = None \<rparr>"
  using foldl_data [OF assms] by (simp add: runner_def spawnClaudeProcess_def)

lemma runner_snoc:
  "runner parse config w (events @ [e]) = runner_step parse config (runner parse config w events) e"
  by (simp add: runner_def)

text \<open>
  C6. A buffered run in which the input was written, the process only produced output
  and then exited with a status code other than 0 is rejected with an error that carries
  the code and the captured text: the standard-error text, or the standard-output text
  when standard error is empty. With code 1 and \<open>rate limited\<close> on standard error the
  message is \<open>Claude process exited with code 1: rate limited\<close>.
\<close>

theorem nonzero_exit_rejects:
  assumes "list_all is_data events" and "code \<noteq> 0"
  shows "settled (runner parse config None (events @ [Close (Some code)])) =
           Some (Inl (Error (''Claude process exited with code '' @ int_to_string code @ '': '' @ captured_text events))) \<and>
         outcome (execute parse config request options requestId now None (events @ [Close (Some code)])) =
           Some (Inl (Error (''Claude process exited with code '' @ int_to_string code @ '': '' @ captured_text events))) \<and>
         (stderr_of events \<noteq> [] \<longrightarrow> captured_text events = stderr_of events) \<and>
         (stderr_of events = [] \<and> stdout_of events \<noteq> [] \<longrightarrow> captured_text events = stdout_of events)"
proof -
  have s: "settled (runner parse config None (events @ [Close (Some code)])) =
           Some (Inl (Error (''Claude process exited with code '' @ int_to_string code @ '': '' @ captured_text events)))"
    using assms(2)
    by (simp add: runner_snoc runner_data [OF assms(1)] Let_def cleanup_def settle_def errorMsg_def
        captured_text_def code_value_def)
  then have "outcome (execute parse config request options requestId now None (events @ [Close (Some code)])) =
           Some (Inl (Error (''Claude process exited with code '' @ int_to_string code @ '': '' @ captured_text events)))"
    by (simp add: execute_def Let_def)
  with s show ?thesis by (simp add: captured_text_def)
qed

theorem nonzero_exit_rejects_witness:
  "list_all is_data [StderrData ''rate limited''] \<and> (1::int) \<noteq> 0 \<and>
   outcome (execute example_parse config1 request2 (Options None None) ''r1'' 0 None [StderrData ''rate limited'', Close (Some 1)])
     = Some (Inl (Error ''Claude process exited with code 1: rate limited''))"
  using nonzero_exit_rejects [of "[StderrData ''rate limited'']" 1 example_parse config1 request2 "Options None None" "''r1''" 0]
  by (simp add: captured_text_def int_to_string_def digits.simps)

section \<open>Properties of the streaming executor\<close>




















lemma split_lines_no_nl: "CHR 0x0A \<notin> set s \<Longrightarrow> split_lines s = [s]"
  by (induction s) auto

lemma split_lines_nl_end: "CHR 0x0A \<notin> set s \<Longrightarrow> split_lines (s @ [CHR 0x0A]) = [s, []]"
  by (induction s) auto

lemma handle_line_unparsed: "parse line = Inl e \<Longrightarrow> handle_line parse rid m now line = []"
  by (simp add: handle_line_def)

lemma handle_line_empty: "handle_line parse rid m now [] = []"
  by (simp add: handle_line_def blank_def)

lemma handle_line_assistant:
  assumes "\<not> blank line" "parse line = Inr event" "get event ''type'' = JStr ''assistant''"
    "truthy (get event ''message'')" "delta_content (get event ''message'') = Inr text"
  shows "handle_line parse rid m now line = [sse_frame (sseChunk rid now m text (get event ''message''))]"
proof -
  have "\<not> nullish event" using assms(3) by (cases event) simp_all
  then show ?thesis using assms by (simp add: handle_line_def)
qed

text \<open>
  C2 (the code departs from it). The stdout handler splits each chunk on its own and
  keeps nothing between chunks. Take a line that parses to an assistant event and cut
  it in two pieces neither of which parses. Arriving in one chunk, the line is forwarded
  as one frame. Arriving as two chunks, each piece fails to parse and is skipped, and no
  frame is forwarded: the frames depend on where the chunk boundary falls.
\<close>

theorem split_line_is_dropped:
  assumes "parse (a @ b) = Inr event" and "get event ''type'' = JStr ''assistant''"
    and "truthy (get event ''message'')" and "delta_content (get event ''message'') = Inr text"
    and "\<not> blank (a @ b)" and "CHR 0x0A \<notin> set (a @ b)"
    and "parse a = Inl e1" and "parse b = Inl e2"
  shows "writes (final_state (executeStreaming parse config request rid None
           [StreamStdout (a @ b @ ''\<newline>'') now, StreamClose (Some 0)])) =
           [sse_frame (sseChunk rid now (model_or_default config request) text (get event ''message'')), done_frame] \<and>
         writes (final_state (executeStreaming parse config request rid None
           [StreamStdout a now, StreamStdout (b @ ''\<newline>'') now, StreamClose (Some 0)])) = [done_frame]"
proof -
  let ?m = "model_or_default config request"
  have nl: "CHR 0x0A \<notin> set a" "CHR 0x0A \<notin> set b" using assms(6) by simp_all
  have line: "handle_line parse rid ?m now (a @ b) =
      [sse_frame (sseChunk rid now ?m text (get event ''message''))]"
    using assms(5) assms(1-4) by (rule handle_line_assistant [where line = "a @ b" and parse = parse])
  have whole: "stdout_handler parse rid ?m now (a @ b @ ''\<newline>'') =
      [sse_frame (sseChunk rid now ?m text (get event ''message''))]"
    using split_lines_nl_end [of "a @ b"] assms(6) line
    by (simp add: stdout_handler_def handle_line_empty)
  have first: "stdout_handler parse rid ?m now a = []"
    using split_lines_no_nl [OF nl(1)] handle_line_unparsed [where parse = parse and line = a, OF assms(7)]
    by (simp add: stdout_handler_def)
  have second: "stdout_handler parse rid ?m now (b @ ''\<newline>'') = []"
    using split_lines_nl_end [OF nl(2)] handle_line_unparsed [where parse = parse and line = b, OF assms(8)]
    by (simp add: stdout_handler_def handle_line_empty)
  show ?thesis
    by (simp add: executeStreaming_def stream_start_def Let_def whole first second del: append_assoc)
qed


text \<open>
  The line \<open>{"type":"assistant","message":{"content":[{"type":"text","text":"Hi"}]}}\<close>,
  whole and cut after \<open>assis\<close>.
\<close>

theorem split_line_is_dropped_witness:
  \<open>writes (final_state (executeStreaming example_parse config1 request2 ''r1'' None
     [StreamStdout ''{"type":"assistant","message":{"content":[{"type":"text","text":"Hi"}]}}\<newline>'' 0,
      StreamClose (Some 0)]))
     = [''data: {"id":"chatcmpl-r1","object":"chat.completion.chunk","created":0,"model":"sonnet","choices":[{"index":0,"delta":{"content":"Hi"},"finish_reason":null}]}\<newline>\<newline>'',
        ''data: [DONE]\<newline>\<newline>''] \<and>
   writes (final_state (executeStreaming example_parse config1 request2 ''r1'' None
     [StreamStdout ''{"type":"assis'' 0,
      StreamStdout ''tant","message":{"content":[{"type":"text","text":"Hi"}]}}\<newline>'' 0,
      StreamClose (Some 0)]))
     = [''data: [DONE]\<newline>\<newline>'']\<close>
proof -
  let ?a = \<open>''{"type":"assis''\<close>
  let ?b = \<open>''tant","message":{"content":[{"type":"text","text":"Hi"}]}}''\<close>
  have p: "example_parse (?a @ ?b) = Inr assistant_event"
    by (simp add: example_parse_def example_texts_def)
  have t: "get assistant_event ''type'' = JStr ''assistant''" "truthy (get assistant_event ''message'')"
    by (simp_all add: assistant_event_def)
  have d: "delta_content (get assistant_event ''message'') = Inr ''Hi''"
    by (simp add: assistant_event_def delta_content_def)
  have nb: "\<not> blank (?a @ ?b)" by (simp add: blank_def is_space_def)
  have nl: "CHR 0x0A \<notin> set (?a @ ?b)" by simp
  have pa: "example_parse ?a = Inl ''Unexpected token''"
    by (simp add: example_parse_def example_texts_def)
  have pb: "example_parse ?b = Inl ''Unexpected token''"
    by (simp add: example_parse_def example_texts_def)
  have f: \<open>sse_frame (sseChunk ''r1'' 0 (model_or_default config1 request2) ''Hi'' (get assistant_event ''message''))
     = ''data: {"id":"chatcmpl-r1","object":"chat.completion.chunk","created":0,"model":"sonnet","choices":[{"index":0,"delta":{"content":"Hi"},"finish_reason":null}]}\<newline>\<newline>''\<close>
    by (simp add: sse_frame_def sseChunk_def model_or_default_def config1_def request2_def
        assistant_event_def js_or_def quote_string_def quote_char_def int_to_string_def digits.simps)
  from split_line_is_dropped [where parse = example_parse and a = ?a and b = ?b,
      OF p t(1) t(2) d nb nl pa pb, of config1 request2 "''r1''" 0]
  show ?thesis by (simp add: f done_frame_def)
qed


section \<open>Timeout and client disconnect\<close>

lemma runner_append:
  "runner parse config w (xs @ ys) = foldl (runner_step parse config) (runner parse config w xs) ys"
  by (simp add: runner_def)

lemma settled_step: "settled s = Some v \<Longrightarrow> settled (runner_step parse config s e) = Some v"
  by (cases e) (simp_all add: settle_def cleanup_def Let_def split: sum.split)

lemma settled_foldl: "settled s = Some v \<Longrightarrow> settled (foldl (runner_step parse config) s es) = Some v"
  by (induction es arbitrary: s) (simp_all add: settled_step)

lemma runner_timeout:
  assumes "list_all is_data evs"
  shows "runner parse config None (evs @ [TimeoutFires]) =
     \<lparr> stdout = stdout_of evs, stderr = stderr_of evs, processExited = False,
       timeoutHandle = None, escalationTimer = Some 5000, signals = [SIGTERM],
       settled = Some (timeout_error config) \<rparr>"
  by (simp add: runner_snoc runner_data [OF assms] Let_def settle_def timeout_error_def)

lemma runner_timeout_data:
  assumes "list_all is_data evs" "list_all is_data evs2"
  shows "runner parse config None (evs @ TimeoutFires # evs2) =
     \<lparr> stdout = stdout_of evs @ stdout_of evs2, stderr = stderr_of evs @ stderr_of evs2,
       processExited = False, timeoutHandle = None, escalationTimer = Some 5000,
       signals = [SIGTERM], settled = Some (timeout_error config) \<rparr>"
  using runner_append [of parse config None "evs @ [TimeoutFires]" evs2]
  by (simp add: runner_timeout [OF assms(1)] foldl_data [OF assms(2)])

lemma stream_signals_step:
  "set (stream_signals (stream_step parse rid m s e)) \<subseteq> set (stream_signals s) \<union> {SIGTERM}"
  by (cases e; simp add: Let_def; blast)

lemma stream_signals_foldl:
  "set (stream_signals (foldl (stream_step parse rid m) s es)) \<subseteq> set (stream_signals s) \<union> {SIGTERM}"
proof (induction es arbitrary: s)
  case Nil
  then show ?case by auto
next
  case (Cons e es)
  show ?case using Cons [of "stream_step parse rid m s e"] stream_signals_step [of parse rid m s e]
    by auto
qed

lemma stream_never_sigkill:
  "SIGKILL \<notin> set (stream_signals (final_state (executeStreaming parse config request rid w sevs)))"
proof -
  have "stream_signals (stream_start w) = []"
    by (simp add: stream_start_def Let_def split: option.split)
  then show ?thesis
    using stream_signals_foldl [of parse rid "model_or_default config request" "stream_start w" sevs]
    by (auto simp: executeStreaming_def)
qed

lemma foldl_stream_data:
  "list_all stream_data sevs \<Longrightarrow>
   stream_signals (foldl (stream_step parse rid m) s sevs) = stream_signals s \<and>
   killed (foldl (stream_step parse rid m) s sevs) = killed s \<and>
   exited (foldl (stream_step parse rid m) s sevs) = exited s"
proof (induction sevs arbitrary: s)
  case Nil
  then show ?case by simp
next
  case (Cons e es)
  then show ?case by (cases e) simp_all
qed

lemma stream_disconnect:
  assumes "list_all stream_data sevs"
  shows "stream_signals (final_state (executeStreaming parse config request rid None (sevs @ [ResClose]))) = [SIGTERM]"
  using foldl_stream_data [OF assms, of parse rid "model_or_default config request" "stream_start None"]
  by (simp add: executeStreaming_def stream_start_def)

text \<open>
  C4 (as amended). The two triggers belong to different executors and end differently.
  In the buffered executor the timeout timer is armed for the configured time when the
  input has been written. When it fires before the process has exited, SIGTERM is sent,
  an escalation timer of 5000 ms is armed and the call is rejected with the timeout
  error; whatever happens afterwards, the call stays rejected with that error. When the
  escalation timer fires and the process has still not exited, SIGKILL is sent; when
  the process has exited by then, it is not. In the streaming executor a client
  disconnect while the process is running sends SIGTERM and nothing more: no run of the
  streaming executor sends SIGKILL.
\<close>

theorem termination_paths:
  assumes "list_all is_data evs" and "list_all is_data evs2" and "list_all stream_data sevs"
  shows "timeoutHandle (runner parse config None evs) = Some (timeout config) \<and>
         signals (runner parse config None (evs @ [TimeoutFires])) = [SIGTERM] \<and>
         escalationTimer (runner parse config None (evs @ [TimeoutFires])) = Some 5000 \<and>
         signals (runner parse config None (evs @ [TimeoutFires] @ evs2 @ [EscalationFires])) = [SIGTERM, SIGKILL] \<and>
         signals (runner parse config None (evs @ [TimeoutFires] @ evs2 @ [Close code, EscalationFires])) = [SIGTERM] \<and>
         (\<forall>rest. settled (runner parse config None (evs @ [TimeoutFires] @ rest)) = Some (timeout_error config)) \<and>
         stream_signals (final_state (executeStreaming parse config request rid None (sevs @ [ResClose]))) = [SIGTERM] \<and>
         (\<forall>w run. SIGKILL \<notin> set (stream_signals (final_state (executeStreaming parse config request rid w run))))"
proof -
  have a: "timeoutHandle (runner parse config None evs) = Some (timeout config)"
    by (simp add: runner_data [OF assms(1)])
  have b: "signals (runner parse config None (evs @ [TimeoutFires])) = [SIGTERM]"
    "escalationTimer (runner parse config None (evs @ [TimeoutFires])) = Some 5000"
    by (simp_all add: runner_timeout [OF assms(1)])
  have c: "signals (runner parse config None (evs @ [TimeoutFires] @ evs2 @ [EscalationFires])) = [SIGTERM, SIGKILL]"
    using runner_append [of parse config None "evs @ [TimeoutFires] @ evs2" "[EscalationFires]"]
    by (simp add: runner_timeout_data [OF assms(1,2)])
  have d: "signals (runner parse config None (evs @ [TimeoutFires] @ evs2 @ [Close code, EscalationFires])) = [SIGTERM]"
    using runner_append [of parse config None "evs @ [TimeoutFires] @ evs2" "[Close code, EscalationFires]"]
    by (simp add: runner_timeout_data [OF assms(1,2)] Let_def cleanup_def settle_def split: sum.split)
  have e: "\<forall>rest. settled (runner parse config None (evs @ [TimeoutFires] @ rest)) = Some (timeout_error config)"
  proof
    fix rest
    have "settled (runner parse config None (evs @ [TimeoutFires])) = Some (timeout_error config)"
      by (simp add: runner_timeout [OF assms(1)])
    then show "settled (runner parse config None (evs @ [TimeoutFires] @ rest)) = Some (timeout_error config)"
      using runner_append [of parse config None "evs @ [TimeoutFires]" rest]
      by (simp add: settled_foldl)
  qed
  show ?thesis
    using a b c d e stream_disconnect [OF assms(3)] stream_never_sigkill by blast
qed

text \<open>
  A client disconnects, and the process goes on (it still writes output when the clock
  reads 600000): SIGTERM is all that was sent.
\<close>

theorem disconnect_counterexample:
  "stream_signals (final_state (executeStreaming example_parse config1 request2 ''r1'' None
     [ResClose, StreamStdout [] 600000])) = [SIGTERM] \<and>
   exited (final_state (executeStreaming example_parse config1 request2 ''r1'' None
     [ResClose, StreamStdout [] 600000])) = False"
  by (simp add: executeStreaming_def stream_start_def)

theorem termination_paths_witness:
  "list_all is_data [StdoutData ''partial''] \<and> list_all stream_data [StreamStdout [] 0] \<and>
   signals (runner example_parse config1 None [StdoutData ''partial'', TimeoutFires, EscalationFires]) = [SIGTERM, SIGKILL] \<and>
   signals (runner example_parse config1 None [StdoutData ''partial'', TimeoutFires, Close None, EscalationFires]) = [SIGTERM] \<and>
   settled (runner example_parse config1 None [StdoutData ''partial'', TimeoutFires, Close None, EscalationFires]) =
     Some (Inl (Error ''Claude process timeout after 600000ms'')) \<and>
   stream_signals (final_state (executeStreaming example_parse config1 request2 ''r1'' None [StreamStdout [] 0, ResClose])) = [SIGTERM]"
proof -
  have h: "list_all is_data [StdoutData ''partial'']" "list_all is_data []" "list_all stream_data [StreamStdout [] 0]"
    by simp_all
  have t: "timeout_error config1 = Inl (Error ''Claude process timeout after 600000ms'')"
    by (simp add: timeout_error_def config1_def int_to_string_def digits.simps)
  from termination_paths [OF h, of example_parse config1 None request2 "''r1''"]
  have "signals (runner example_parse config1 None ([StdoutData ''partial''] @ [TimeoutFires] @ [] @ [EscalationFires])) = [SIGTERM, SIGKILL]"
    and "signals (runner example_parse config1 None ([StdoutData ''partial''] @ [TimeoutFires] @ [] @ [Close None, EscalationFires])) = [SIGTERM]"
    and "\<forall>rest. settled (runner example_parse config1 None ([StdoutData ''partial''] @ [TimeoutFires] @ rest)) = Some (timeout_error config1)"
    and "stream_signals (final_state (executeStreaming example_parse config1 request2 ''r1'' None ([StreamStdout [] 0] @ [ResClose]))) = [SIGTERM]"
    by blast+
  then show ?thesis using h t by simp
qed


end
